theory Spec2Isabelle
  imports Main
begin

section \<open>The counter of \<open>src/App.tsx\<close>\<close>

text \<open>
  The only code of the repository is the function component \<open>App\<close>:
  \<^verbatim>\<open>
  function App() {
    const [count, setCount] = useState(0)
    return ( <div ...> ...
        <button className="..." onClick={() => setCount((count) => count + 1)}>
          count is {count}
        </button> ... </div> )
  }
  \<close>
  The embedding has three layers: the numbers of the language (\<open>count + 1\<close>), the
  element tree that the component returns, and the way the framework runs a click
  listener found in that tree.
\<close>

subsection \<open>Numbers\<close>

text \<open>
  \<open>count\<close> has the type \<open>number\<close>: an IEEE 754 binary64 value. It starts at \<open>0\<close> and
  is only ever changed by adding \<open>1\<close>, so it is always integer valued. The integer valued
  binary64 numbers are modelled as \<open>int\<close>; an addition computes the exact sum and rounds
  it to the nearest number with a significand of 53 bits, a tie going to the even
  significand. (Sums of magnitude \<open>2 ^ 1024\<close> and more, which give \<open>Infinity\<close>, are outside
  this model; no sum \<open>x + 1\<close> of a binary64 number \<open>x\<close> is that large.)
\<close>

fun bit_length :: "nat \<Rightarrow> nat" where
  "bit_length n = (if n = 0 then 0 else Suc (bit_length (n div 2)))"

declare bit_length.simps [simp del]

definition round_binary64 :: "int \<Rightarrow> int" where
  "round_binary64 x =
     (let m = nat \<bar>x\<bar>;
          e = bit_length m - 53; \<comment> \<open>0 when \<open>m\<close> has at most 53 bits\<close>
          u = 2 ^ e;
          q = m div u;
          r = m mod u;
          q' = (if 2 * r < u then q
                else if u < 2 * r then q + 1
                else if even q then q else q + 1)
      in sgn x * int (q' * u))"

definition js_add :: "int \<Rightarrow> int \<Rightarrow> int" where
  "js_add a b = round_binary64 (a + b)"

text \<open>
  A number child of an element is shown as \<open>String(count)\<close>. For a number that is an
  integer this is: the decimal numeral with the fewest significant digits among those
  that round to the number (the one nearest to it if there are several, the even one at
  a tie), written out in full when it has at most 21 digits and with an exponent
  otherwise; after a minus sign when the number is negative. Up to \<open>2 ^ 53\<close> this is
  the decimal numeral of the integer itself, see \<open>js_number_to_string_small\<close>.
\<close>

definition digit_char :: "nat \<Rightarrow> char" where
  "digit_char d = ''0123456789'' ! d"

fun digits10 :: "nat \<Rightarrow> string" where
  "digits10 n =
     (if n < 10 then [digit_char n]
      else digits10 (n div 10) @ [digit_char (n mod 10)])"

declare digits10.simps [simp del]

text \<open>
  \<open>shortest_decimal z x\<close>: the numeral for \<open>x\<close> with the most trailing zeros, at most
  \<open>z\<close> of them. A multiple of \<open>10 ^ z\<close> that rounds to \<open>x\<close> is one of the two that
  enclose \<open>x\<close>.
\<close>

fun shortest_decimal :: "nat \<Rightarrow> nat \<Rightarrow> nat" where
  "shortest_decimal 0 x = x"
| "shortest_decimal (Suc z) x =
     (let p = 10 ^ Suc z;
          lo = (x div p) * p;
          hi = lo + p;
          lo_ok = (round_binary64 (int lo) = int x);
          hi_ok = (round_binary64 (int hi) = int x)
      in if lo_ok \<and> hi_ok then
           (if x - lo < hi - x then lo
            else if hi - x < x - lo then hi
            else if even (x div p) then lo else hi)
         else if lo_ok then lo
         else if hi_ok then hi
         else shortest_decimal z x)"

definition number_digits :: "nat \<Rightarrow> string" where
  "number_digits x =
     (let d = digits10 (shortest_decimal (length (digits10 x)) x);
          n = length d
      in if n \<le> 21 then d
         else (let s = rev (dropWhile (\<lambda>c. c = CHR ''0'') (rev d))
               in hd s # (if tl s = [] then [] else CHR ''.'' # tl s) @ ''e+'' @ digits10 (n - 1)))"

definition js_number_to_string :: "int \<Rightarrow> string" where
  "js_number_to_string x =
     (if x < 0 then CHR ''-'' # number_digits (nat (- x)) else number_digits (nat x))"

text \<open>Reading a decimal numeral: the value of a digit, and of a string of digits.\<close>

definition digit_value :: "char \<Rightarrow> nat" where
  "digit_value c = length (takeWhile (\<lambda>d. d \<noteq> c) ''0123456789'')"

definition decimal_value :: "string \<Rightarrow> nat" where
  "decimal_value d = foldl (\<lambda>a c. 10 * a + digit_value c) 0 d"

subsection \<open>State\<close>

text \<open>The state of the component is the one slot of its \<open>useState\<close> hook.\<close>

record app_state =
  count :: int

text \<open>\<open>useState(0)\<close>: the state at the first render.\<close>

definition useState :: "int \<Rightarrow> app_state" where
  "useState initial = \<lparr>count = initial\<rparr>"

definition App_init :: app_state where
  "App_init = useState 0"

text \<open>\<open>setCount(f)\<close> with an updater function: the next state is \<open>f\<close> of the current one.\<close>

definition setCount :: "(int \<Rightarrow> int) \<Rightarrow> app_state \<Rightarrow> app_state" where
  "setCount f s = s\<lparr>count := f (count s)\<rparr>"

text \<open>The listener of the button: \<open>() => setCount((count) => count + 1)\<close>.\<close>

definition onClick :: "app_state \<Rightarrow> app_state" where
  "onClick = setCount (\<lambda>count. js_add count 1)"

subsection \<open>The element tree\<close>

text \<open>
  What the component returns: host elements with their props and children. A prop is a
  string literal, the default export of an imported asset module (\<open>viteLogo\<close>,
  \<open>reactLogo\<close>: named by the import specifier, the files are not part of the sources), or
  a listener. A child is an element, a text or a number (\<open>{count}\<close>).
\<close>

datatype prop_value =
    Str string
  | Import string
  | Listener "app_state \<Rightarrow> app_state"

datatype node =
    Elem string "(string \<times> prop_value) list" "node list"
  | Text string
  | Number int

text \<open>
  The body of \<open>App\<close>, lines 9 to 35. Text between tags follows the whitespace rule of JSX:
  lines are trimmed and the blank ones dropped, so the children of the button are the text
  \<open>count is\<close> with its trailing space and the number.
\<close>

definition App :: "app_state \<Rightarrow> node" where
  "App s =
     Elem ''div'' [(''className'', Str ''flex flex-col justify-center items-center min-h-screen gap-6'')]
      [Elem ''div'' [(''className'', Str ''flex gap-4'')]
        [Elem ''a'' [(''href'', Str ''https://vite.dev''), (''target'', Str ''_blank'')]
          [Elem ''img'' [(''src'', Import ''/vite.svg''), (''className'', Str ''logo''),
                         (''alt'', Str ''Vite logo'')] []],
         Elem ''a'' [(''href'', Str ''https://react.dev''), (''target'', Str ''_blank'')]
          [Elem ''img'' [(''src'', Import ''@/assets/react.svg''), (''className'', Str ''logo react''),
                         (''alt'', Str ''React logo'')] []]],
       Elem ''h1'' [(''className'', Str ''text-3xl font-bold'')] [Text ''Vite + React''],
       Elem ''div'' [(''className'', Str ''card p-4 rounded shadow-lg flex flex-col items-center gap-4'')]
        [Elem ''button''
          [(''className'', Str ''px-4 py-2 bg-blue-500 text-white rounded hover:bg-blue-600''),
           (''onClick'', Listener onClick)]
          [Text ''count is '', Number (count s)],
         Elem ''p'' []
          [Text ''Edit '', Elem ''code'' [] [Text ''src/App.tsx''], Text '' and save to test HMR'']],
       Elem ''p'' [(''className'', Str ''read-the-docs text-gray-500'')]
        [Text ''Click on the Vite and React logos to learn more'']]"

text \<open>Reading a tree: the elements with a given tag in document order, and the text shown.\<close>

fun by_tag :: "string \<Rightarrow> node \<Rightarrow> node list" where
  "by_tag t (Elem tag props children) =
     (if tag = t then [Elem tag props children] else []) @ concat (map (by_tag t) children)"
| "by_tag t (Text txt) = []"
| "by_tag t (Number n) = []"

fun textContent :: "node \<Rightarrow> string" where
  "textContent (Elem tag props children) = concat (map textContent children)"
| "textContent (Text txt) = txt"
| "textContent (Number n) = js_number_to_string n"

text \<open>
  The tags of a tree that name components rather than host elements: in JSX these are
  the tags that do not start with a lower case letter.
\<close>

definition is_component_tag :: "string \<Rightarrow> bool" where
  "is_component_tag tag = (case tag of [] \<Rightarrow> False | c # cs \<Rightarrow> c \<notin> set ''abcdefghijklmnopqrstuvwxyz'')"

fun component_tags :: "node \<Rightarrow> string list" where
  "component_tags (Elem tag props children) =
     (if is_component_tag tag then [tag] else []) @ concat (map component_tags children)"
| "component_tags (Text txt) = []"
| "component_tags (Number n) = []"

text \<open>The tree with every number child set to 0: what of a tree is not a number.\<close>

fun blank_numbers :: "node \<Rightarrow> node" where
  "blank_numbers (Elem tag props children) = Elem tag props (map blank_numbers children)"
| "blank_numbers (Text txt) = Text txt"
| "blank_numbers (Number n) = Number 0"

subsection \<open>Rendering and clicking\<close>

text \<open>
  The framework throws in two places that concern the kinds of element and prop that
  \<open>App\<close> uses: when it creates a void element (such as \<open>img\<close>) that was given children,
  and when it is about to call a listener that is not a function. Both are error values
  here.
\<close>

datatype react_error =
    VoidElementWithChildren string
  | ListenerNotFunction string

definition void_elements :: "string list" where
  "void_elements =
     [''area'', ''base'', ''br'', ''col'', ''embed'', ''hr'', ''img'', ''input'', ''keygen'',
      ''link'', ''menuitem'', ''meta'', ''param'', ''source'', ''track'', ''wbr'']"

fun first_error :: "react_error option list \<Rightarrow> react_error option" where
  "first_error [] = None"
| "first_error (None # es) = first_error es"
| "first_error (Some e # es) = Some e"

fun check_node :: "node \<Rightarrow> react_error option" where
  "check_node (Elem tag props children) =
     (if tag \<in> set void_elements \<and> children \<noteq> [] then Some (VoidElementWithChildren tag)
      else first_error (map check_node children))"
| "check_node (Text txt) = None"
| "check_node (Number n) = None"

definition render :: "app_state \<Rightarrow> react_error + node" where
  "render s = (case check_node (App s) of Some e \<Rightarrow> Inl e | None \<Rightarrow> Inr (App s))"

text \<open>
  A click on an element runs its \<open>onClick\<close> listener on the current state. (No ancestor
  of the button has a listener, so the bubbling of the event is left out.)
\<close>

fun dispatch_click :: "node \<Rightarrow> app_state \<Rightarrow> react_error + app_state" where
  "dispatch_click (Elem tag props children) s =
     (case map_of props ''onClick'' of
        None \<Rightarrow> Inr s
      | Some (Listener f) \<Rightarrow> Inr (f s)
      | Some (Str v) \<Rightarrow> Inl (ListenerNotFunction ''onClick'')
      | Some (Import v) \<Rightarrow> Inl (ListenerNotFunction ''onClick''))"
| "dispatch_click (Text txt) s = Inr s"
| "dispatch_click (Number n) s = Inr s"

text \<open>A click on the button of a tree, and on the button of what \<open>App\<close> rendered.\<close>

definition click_in :: "node \<Rightarrow> app_state \<Rightarrow> react_error + app_state" where
  "click_in tree s = (case by_tag ''button'' tree of [] \<Rightarrow> Inr s | b # bs \<Rightarrow> dispatch_click b s)"

definition click_button :: "app_state \<Rightarrow> react_error + app_state" where
  "click_button s = click_in (App s) s"

fun clicks :: "nat \<Rightarrow> app_state \<Rightarrow> react_error + app_state" where
  "clicks 0 s = Inr s"
| "clicks (Suc k) s = (case click_button s of Inl e \<Rightarrow> Inl e | Inr s' \<Rightarrow> clicks k s')"

text \<open>The states that clicks reach from the first render.\<close>

inductive reachable :: "app_state \<Rightarrow> bool" where
  reachable_init: "reachable App_init"
| reachable_click: "reachable s \<Longrightarrow> click_button s = Inr s' \<Longrightarrow> reachable s'"

code_pred reachable .

subsection \<open>What a render could read besides the state\<close>

text \<open>
  A prop value or an expression in braces is evaluated at every render. Those of \<open>App\<close>
  are string literals, the state variable \<open>count\<close>, the imported \<open>viteLogo\<close> and
  \<open>reactLogo\<close>, and the arrow function of the button. The language lets such an
  expression read the page around the component just as well: an item of the persistent
  storage (\<open>localStorage.getItem(key)\<close>), the body of the response to a network request,
  an argument of the command line (\<open>process.argv[i]\<close>). So the JSX of \<open>App\<close> is written
  down a second time, with its expressions unevaluated, and evaluated in an environment.
\<close>

record environment =
  network :: "string \<Rightarrow> string option"
  storage :: "string \<Rightarrow> string option"
  argv :: "string list"

datatype jsx_expr =
    StringLiteral string
  | CountVar
  | ImportedAsset string
  | ArrowFunction "app_state \<Rightarrow> app_state"
  | StorageItem string
  | NetworkResponse string
  | CommandLineArg nat

datatype js_value =
    VString string
  | VNumber int
  | VAsset string
  | VFunction "app_state \<Rightarrow> app_state"
  | VNull

fun eval_expr :: "environment \<Rightarrow> app_state \<Rightarrow> jsx_expr \<Rightarrow> js_value" where
  "eval_expr env s (StringLiteral v) = VString v"
| "eval_expr env s CountVar = VNumber (count s)"
| "eval_expr env s (ImportedAsset m) = VAsset m"
| "eval_expr env s (ArrowFunction f) = VFunction f"
| "eval_expr env s (StorageItem key) =
     (case storage env key of None \<Rightarrow> VNull | Some v \<Rightarrow> VString v)"
| "eval_expr env s (NetworkResponse url) =
     (case network env url of None \<Rightarrow> VNull | Some v \<Rightarrow> VString v)"
| "eval_expr env s (CommandLineArg i) =
     (if i < length (argv env) then VString (argv env ! i) else VNull)"

text \<open>
  A value as a prop (a prop that is \<open>null\<close> or \<open>undefined\<close> is left out) and as a child
  (\<open>null\<close>, \<open>undefined\<close> and functions show nothing; an asset is its address, named by
  the import specifier).
\<close>

fun prop_of_value :: "js_value \<Rightarrow> prop_value option" where
  "prop_of_value (VString v) = Some (Str v)"
| "prop_of_value (VNumber n) = Some (Str (js_number_to_string n))"
| "prop_of_value (VAsset m) = Some (Import m)"
| "prop_of_value (VFunction f) = Some (Listener f)"
| "prop_of_value VNull = None"

fun child_of_value :: "js_value \<Rightarrow> node list" where
  "child_of_value (VString v) = [Text v]"
| "child_of_value (VNumber n) = [Number n]"
| "child_of_value (VAsset m) = [Text m]"
| "child_of_value (VFunction f) = []"
| "child_of_value VNull = []"

datatype jsx =
    JsxElement string "(string \<times> jsx_expr) list" "jsx list"
  | JsxText string
  | JsxExpression jsx_expr

definition eval_props ::
  "environment \<Rightarrow> app_state \<Rightarrow> (string \<times> jsx_expr) list \<Rightarrow> (string \<times> prop_value) list" where
  "eval_props env s props =
     concat (map (\<lambda>(name, e). case prop_of_value (eval_expr env s e) of
                                 None \<Rightarrow> [] | Some v \<Rightarrow> [(name, v)]) props)"

fun eval_jsx :: "environment \<Rightarrow> app_state \<Rightarrow> jsx \<Rightarrow> node list" where
  "eval_jsx env s (JsxElement tag props children) =
     [Elem tag (eval_props env s props) (concat (map (eval_jsx env s) children))]"
| "eval_jsx env s (JsxText txt) = [Text txt]"
| "eval_jsx env s (JsxExpression e) = child_of_value (eval_expr env s e)"

text \<open>The expressions that read the environment, and the JSX that contains one.\<close>

fun reads_environment :: "jsx_expr \<Rightarrow> bool" where
  "reads_environment (StorageItem key) = True"
| "reads_environment (NetworkResponse url) = True"
| "reads_environment (CommandLineArg i) = True"
| "reads_environment (StringLiteral v) = False"
| "reads_environment CountVar = False"
| "reads_environment (ImportedAsset m) = False"
| "reads_environment (ArrowFunction f) = False"

fun jsx_reads_environment :: "jsx \<Rightarrow> bool" where
  "jsx_reads_environment (JsxElement tag props children) =
     (list_ex (\<lambda>kv. reads_environment (snd kv)) props \<or> list_ex jsx_reads_environment children)"
| "jsx_reads_environment (JsxText txt) = False"
| "jsx_reads_environment (JsxExpression e) = reads_environment e"

text \<open>The body of \<open>App\<close>, lines 9 to 35, with its expressions as written.\<close>

definition App_jsx :: jsx where
  "App_jsx =
     JsxElement ''div''
       [(''className'', StringLiteral ''flex flex-col justify-center items-center min-h-screen gap-6'')]
      [JsxElement ''div'' [(''className'', StringLiteral ''flex gap-4'')]
        [JsxElement ''a''
          [(''href'', StringLiteral ''https://vite.dev''), (''target'', StringLiteral ''_blank'')]
          [JsxElement ''img''
            [(''src'', ImportedAsset ''/vite.svg''), (''className'', StringLiteral ''logo''),
             (''alt'', StringLiteral ''Vite logo'')] []],
         JsxElement ''a''
          [(''href'', StringLiteral ''https://react.dev''), (''target'', StringLiteral ''_blank'')]
          [JsxElement ''img''
            [(''src'', ImportedAsset ''@/assets/react.svg''),
             (''className'', StringLiteral ''logo react''),
             (''alt'', StringLiteral ''React logo'')] []]],
       JsxElement ''h1'' [(''className'', StringLiteral ''text-3xl font-bold'')]
        [JsxText ''Vite + React''],
       JsxElement ''div''
         [(''className'', StringLiteral ''card p-4 rounded shadow-lg flex flex-col items-center gap-4'')]
        [JsxElement ''button''
          [(''className'', StringLiteral ''px-4 py-2 bg-blue-500 text-white rounded hover:bg-blue-600''),
           (''onClick'', ArrowFunction onClick)]
          [JsxText ''count is '', JsxExpression CountVar],
         JsxElement ''p'' []
          [JsxText ''Edit '', JsxElement ''code'' [] [JsxText ''src/App.tsx''],
           JsxText '' and save to test HMR'']],
       JsxElement ''p'' [(''className'', StringLiteral ''read-the-docs text-gray-500'')]
        [JsxText ''Click on the Vite and React logos to learn more'']]"

text \<open>A render in an environment: the trees of the evaluated JSX, each checked.\<close>

definition render_in :: "environment \<Rightarrow> app_state \<Rightarrow> (react_error + node) list" where
  "render_in env s =
     map (\<lambda>tree. case check_node tree of Some e \<Rightarrow> Inl e | None \<Rightarrow> Inr tree)
       (eval_jsx env s App_jsx)"

subsection \<open>The starter template\<close>

text \<open>
  Modelled from the spec: the \<open>App\<close> component of the starter template, which the spec
  names ("the default starter template shipped by a scaffolding tool, unmodified beyond
  trivial styling") and which the repository does not contain. What follows is the
  \<open>src/App.tsx\<close> that the scaffolding tool writes for React with TypeScript, in the
  version whose links are \<open>vite.dev\<close> and \<open>react.dev\<close> as in this repository:
  \<^verbatim>\<open>
  import reactLogo from './assets/react.svg'
  import viteLogo from '/vite.svg'
  function App() {
    const [count, setCount] = useState(0)
    return (
      <>
        <div>
          <a href="https://vite.dev" target="_blank">
            <img src={viteLogo} className="logo" alt="Vite logo" /></a>
          <a href="https://react.dev" target="_blank">
            <img src={reactLogo} className="logo react" alt="React logo" /></a>
        </div>
        <h1>Vite + React</h1>
        <div className="card">
          <button onClick={() => setCount((count) => count + 1)}>count is {count}</button>
          <p>Edit <code>src/App.tsx</code> and save to test HMR</p>
        </div>
        <p className="read-the-docs">Click on the Vite and React logos to learn more</p>
      </>
    )
  }
  \<close>
  Its root is a fragment, so it returns a list of nodes.
\<close>

definition Template_init :: app_state where
  "Template_init = useState 0"

definition Template_onClick :: "app_state \<Rightarrow> app_state" where
  "Template_onClick = setCount (\<lambda>count. js_add count 1)"

definition Template_App :: "app_state \<Rightarrow> node list" where
  "Template_App s =
     [Elem ''div'' []
       [Elem ''a'' [(''href'', Str ''https://vite.dev''), (''target'', Str ''_blank'')]
         [Elem ''img'' [(''src'', Import ''/vite.svg''), (''className'', Str ''logo''),
                        (''alt'', Str ''Vite logo'')] []],
        Elem ''a'' [(''href'', Str ''https://react.dev''), (''target'', Str ''_blank'')]
         [Elem ''img'' [(''src'', Import ''./assets/react.svg''), (''className'', Str ''logo react''),
                        (''alt'', Str ''React logo'')] []]],
      Elem ''h1'' [] [Text ''Vite + React''],
      Elem ''div'' [(''className'', Str ''card'')]
       [Elem ''button'' [(''onClick'', Listener Template_onClick)]
         [Text ''count is '', Number (count s)],
        Elem ''p'' []
         [Text ''Edit '', Elem ''code'' [] [Text ''src/App.tsx''], Text '' and save to test HMR'']],
      Elem ''p'' [(''className'', Str ''read-the-docs'')]
       [Text ''Click on the Vite and React logos to learn more'']]"

text \<open>A click on the button of the template, and a sequence of them.\<close>

definition Template_click :: "app_state \<Rightarrow> react_error + app_state" where
  "Template_click s =
     (case concat (map (by_tag ''button'') (Template_App s)) of
        [] \<Rightarrow> Inr s
      | b # bs \<Rightarrow> dispatch_click b s)"

fun Template_clicks :: "nat \<Rightarrow> app_state \<Rightarrow> react_error + app_state" where
  "Template_clicks 0 s = Inr s"
| "Template_clicks (Suc k) s =
     (case Template_click s of Inl e \<Rightarrow> Inl e | Inr s' \<Rightarrow> Template_clicks k s')"

text \<open>
  The styling of \<open>App\<close> is in its \<open>className\<close> props; \<open>strip_styling\<close> erases them.
  \<open>App\<close> imports the React logo through the path alias \<open>@\<close> where the template has a
  relative path; \<open>with_alias\<close> writes the alias into a tree.
\<close>

fun strip_styling :: "node \<Rightarrow> node" where
  "strip_styling (Elem tag props children) =
     Elem tag (filter (\<lambda>kv. fst kv \<noteq> ''className'') props) (map strip_styling children)"
| "strip_styling (Text txt) = Text txt"
| "strip_styling (Number n) = Number n"

fun alias_prop :: "prop_value \<Rightarrow> prop_value" where
  "alias_prop (Import m) = Import (if m = ''./assets/react.svg'' then ''@/assets/react.svg'' else m)"
| "alias_prop (Str v) = Str v"
| "alias_prop (Listener f) = Listener f"

fun with_alias :: "node \<Rightarrow> node" where
  "with_alias (Elem tag props children) =
     Elem tag (map (\<lambda>kv. (fst kv, alias_prop (snd kv))) props) (map with_alias children)"
| "with_alias (Text txt) = Text txt"
| "with_alias (Number n) = Number n"

section \<open>Properties\<close>

subsection \<open>Numbers\<close>

lemma bit_length_le_iff: "bit_length n \<le> k \<longleftrightarrow> n < 2 ^ k"
proof (induction k arbitrary: n)
  case 0
  show ?case by (subst bit_length.simps) simp
next
  case (Suc k)
  have "bit_length n \<le> Suc k \<longleftrightarrow> n = 0 \<or> bit_length (n div 2) \<le> k"
    by (subst bit_length.simps) simp
  also have "\<dots> \<longleftrightarrow> n = 0 \<or> n div 2 < 2 ^ k"
    by (simp add: Suc.IH)
  also have "\<dots> \<longleftrightarrow> n < 2 ^ Suc k"
    by auto
  finally show ?case .
qed

lemma bit_length_small: "n < 2 ^ 53 \<Longrightarrow> bit_length n - 53 = 0"
  using bit_length_le_iff [of n 53] by simp

lemma round_binary64_exact: "\<bar>x\<bar> < 2 ^ 53 \<Longrightarrow> round_binary64 x = x"
proof -
  assume "\<bar>x\<bar> < 2 ^ 53"
  then have "nat \<bar>x\<bar> < 2 ^ 53" by simp
  then have "bit_length (nat \<bar>x\<bar>) - 53 = 0" by (rule bit_length_small)
  then show ?thesis
    by (simp add: round_binary64_def Let_def mult_sgn_abs)
qed

lemma bit_length_2_53: "bit_length 9007199254740992 = 54"
  by (simp add: bit_length.simps)

lemma bit_length_2_53_plus_1: "bit_length 9007199254740993 = 54"
  by (simp add: bit_length.simps)

lemma round_binary64_2_53: "round_binary64 9007199254740992 = 9007199254740992"
  by (simp add: round_binary64_def Let_def bit_length_2_53)

lemma round_binary64_2_53_plus_1: "round_binary64 9007199254740993 = 9007199254740992"
  by (simp add: round_binary64_def Let_def bit_length_2_53_plus_1)

text \<open>Above \<open>2 ^ 53\<close> only the even integers are numbers, and a tie goes to the even significand.\<close>

lemma bit_length_2_53_plus_3: "bit_length 9007199254740995 = 54"
  by (simp add: bit_length.simps)

lemma js_add_tie_to_even: "js_add 9007199254740994 1 = 9007199254740996"
  by (simp add: js_add_def round_binary64_def Let_def bit_length_2_53_plus_3)

lemma js_add_1_exact:
  assumes "- (2 ^ 53) \<le> n" and "n < 2 ^ 53"
  shows "js_add n 1 = n + 1"
proof (cases "n + 1 = 2 ^ 53")
  case True
  then show ?thesis
    by (simp add: js_add_def round_binary64_2_53)
next
  case False
  with assms have "\<bar>n + 1\<bar> < 2 ^ 53" by simp
  then show ?thesis
    unfolding js_add_def by (rule round_binary64_exact)
qed

lemma js_add_1_stuck: "js_add (2 ^ 53) 1 = 2 ^ 53"
  by (simp add: js_add_def round_binary64_2_53_plus_1)

subsection \<open>Decimal numerals\<close>

lemma digit_value_digit_char: "d < 10 \<Longrightarrow> digit_value (digit_char d) = d"
proof -
  assume "d < 10"
  then have "d \<in> {0, 1, 2, 3, 4, 5, 6, 7, 8, 9}" by auto
  then show ?thesis
    by (auto simp: digit_value_def digit_char_def)
qed

lemma digit_char_is_digit: "d < 10 \<Longrightarrow> digit_char d \<in> set ''0123456789''"
proof -
  assume "d < 10"
  then have "d \<in> {0, 1, 2, 3, 4, 5, 6, 7, 8, 9}" by auto
  then show ?thesis
    by (auto simp: digit_char_def)
qed

lemma digit_char_eq_0: "d < 10 \<Longrightarrow> digit_char d = CHR ''0'' \<longleftrightarrow> d = 0"
proof -
  assume "d < 10"
  then have "d \<in> {0, 1, 2, 3, 4, 5, 6, 7, 8, 9}" by auto
  then show ?thesis
    by (auto simp: digit_char_def)
qed

lemma decimal_value_snoc: "decimal_value (ds @ [c]) = 10 * decimal_value ds + digit_value c"
  by (simp add: decimal_value_def)

lemma decimal_value_digits10: "decimal_value (digits10 n) = n"
proof (induction n rule: digits10.induct)
  case (1 n)
  show ?case
  proof (cases "n < 10")
    case True
    then show ?thesis
      by (subst digits10.simps) (simp add: decimal_value_def digit_value_digit_char)
  next
    case False
    then have "decimal_value (digits10 n) = 10 * decimal_value (digits10 (n div 10)) + digit_value (digit_char (n mod 10))"
      by (subst digits10.simps) (simp add: decimal_value_snoc)
    also have "\<dots> = 10 * (n div 10) + n mod 10"
      using False by (simp add: "1.IH" digit_value_digit_char)
    finally show ?thesis by simp
  qed
qed

lemma digits10_digits: "set (digits10 n) \<subseteq> set ''0123456789''"
proof (induction n rule: digits10.induct)
  case (1 n)
  show ?case
  proof (cases "n < 10")
    case True
    then show ?thesis
      using digit_char_is_digit [of n] by (subst digits10.simps) simp
  next
    case False
    then show ?thesis
      using "1.IH" digit_char_is_digit [of "n mod 10"] by (subst digits10.simps) simp
  qed
qed

lemma digits10_not_Nil: "digits10 n \<noteq> []"
  by (subst digits10.simps) simp

lemma digits10_no_leading_0: "0 < n \<Longrightarrow> hd (digits10 n) \<noteq> CHR ''0''"
proof (induction n rule: digits10.induct)
  case (1 n)
  show ?case
  proof (cases "n < 10")
    case True
    with "1.prems" show ?thesis
      by (subst digits10.simps) (simp add: digit_char_eq_0)
  next
    case False
    then have "0 < n div 10" by simp
    with False "1.IH" have "hd (digits10 (n div 10)) \<noteq> CHR ''0''" by simp
    with False show ?thesis
      by (subst digits10.simps) (simp add: digits10_not_Nil)
  qed
qed

lemma length_digits10: "0 < k \<Longrightarrow> n < 10 ^ k \<Longrightarrow> length (digits10 n) \<le> k"
proof (induction k arbitrary: n)
  case 0
  then show ?case by simp
next
  case (Suc k)
  show ?case
  proof (cases "n < 10")
    case True
    then show ?thesis by (subst digits10.simps) simp
  next
    case False
    with Suc.prems have "0 < k" by (cases k) auto
    moreover from Suc.prems have "n div 10 < 10 ^ k" by (simp add: less_mult_imp_div_less mult.commute)
    ultimately have "length (digits10 (n div 10)) \<le> k" by (rule Suc.IH)
    with False show ?thesis by (subst digits10.simps) simp
  qed
qed

subsection \<open>Printing a count\<close>

text \<open>
  A natural number \<open>c\<close> that rounds to a number \<open>x\<close> of at most \<open>2 ^ 53\<close> is \<open>x\<close>
  itself, or \<open>2 ^ 53 + 1\<close> when \<open>x = 2 ^ 53\<close>; so up to \<open>2 ^ 53\<close> the shortest numeral is
  the numeral of the integer.
\<close>

lemma round_binary64_ge:
  "int (m div 2 ^ (bit_length m - 53) * 2 ^ (bit_length m - 53)) \<le> round_binary64 (int m)"
proof (cases "m = 0")
  case True
  then show ?thesis by (simp add: round_binary64_def)
next
  case False
  then have "sgn (int m) = 1" by simp
  then show ?thesis
    by (simp add: round_binary64_def Let_def del: of_nat_mult of_nat_power)
qed

lemma two_pow_le: "2 ^ (bit_length m - 1) \<le> m" if "0 < m"
proof -
  from that have "0 < bit_length m"
    by (subst bit_length.simps) simp
  then have "\<not> bit_length m \<le> bit_length m - 1" by simp
  then have "\<not> m < 2 ^ (bit_length m - 1)"
    unfolding bit_length_le_iff .
  then show ?thesis by simp
qed

lemma round_binary64_above:
  assumes "2 ^ 53 + 2 \<le> m"
  shows "2 ^ 53 < round_binary64 (int m)"
proof -
  define e where "e = bit_length m - 53"
  from assms have "\<not> m < 2 ^ 53" by simp
  then have "\<not> bit_length m \<le> 53"
    unfolding bit_length_le_iff .
  then have e: "1 \<le> e" and b: "bit_length m - 1 = 52 + e"
    by (simp_all add: e_def)
  from assms have "0 < m" by simp
  then have "2 ^ (bit_length m - 1) \<le> m" by (rule two_pow_le)
  then have "2 ^ (52 + e) \<le> m"
    unfolding b .
  then have "(2::nat) ^ 52 * 2 ^ e \<le> m"
    by (simp add: power_add)
  then have q: "2 ^ 52 \<le> m div 2 ^ e"
    by (simp add: less_eq_div_iff_mult_less_eq)
  have "(2::nat) ^ 53 < m div 2 ^ e * 2 ^ e"
  proof (cases "e = 1")
    case True
    have "m div 2 * 2 = m - m mod 2" by (simp add: minus_mod_eq_div_mult)
    with assms True show ?thesis by simp
  next
    case False
    with e have "2 \<le> e" by simp
    then have "(2::nat) ^ 2 \<le> 2 ^ e"
      by (intro power_increasing) simp_all
    then have "(2::nat) ^ 52 * 2 ^ 2 \<le> m div 2 ^ e * 2 ^ e"
      using q by (intro mult_le_mono)
    then show ?thesis by simp
  qed
  then have "(2::int) ^ 53 < int (m div 2 ^ e * 2 ^ e)"
    by (simp del: of_nat_mult of_nat_power add: of_nat_less_numeral_power_cancel_iff)
  also have "\<dots> \<le> round_binary64 (int m)"
    unfolding e_def by (rule round_binary64_ge)
  finally show ?thesis .
qed

lemma rounds_to_small:
  assumes "round_binary64 (int c) = int x" and "x \<le> 2 ^ 53"
  shows "c = x \<or> c = 2 ^ 53 + 1"
proof -
  consider "c < 2 ^ 53" | "c = 2 ^ 53" | "c = 2 ^ 53 + 1" | "2 ^ 53 + 2 \<le> c"
    by fastforce
  then show ?thesis
  proof cases
    case 1
    then have "round_binary64 (int c) = int c"
      by (intro round_binary64_exact) simp
    with assms show ?thesis by simp
  next
    case 2
    with assms round_binary64_2_53 show ?thesis by simp
  next
    case 3
    then show ?thesis by simp
  next
    case 4
    then have "2 ^ 53 < round_binary64 (int c)" by (rule round_binary64_above)
    with assms show ?thesis by simp
  qed
qed

lemma shortest_decimal_small: "x \<le> 2 ^ 53 \<Longrightarrow> shortest_decimal z x = x"
proof (induction z)
  case 0
  show ?case by simp
next
  case (Suc z)
  define p :: nat where "p = 10 ^ Suc z"
  define lo where "lo = x div p * p"
  have "10 dvd p" by (simp add: p_def)
  then have "10 dvd lo + p" by (simp add: lo_def)
  then have "(lo + p) mod 10 = 0" by simp
  moreover have "(2 ^ 53 + 1) mod 10 = (3::nat)" by simp
  ultimately have "lo + p \<noteq> 2 ^ 53 + 1" by force
  moreover have "x < lo + p"
  proof -
    have "0 < p" by (simp add: p_def)
    then have "x mod p < p" by (rule mod_less_divisor)
    moreover have "x = lo + x mod p" by (simp add: lo_def)
    ultimately show ?thesis by linarith
  qed
  ultimately have hi: "round_binary64 (int (lo + p)) \<noteq> int x"
    using rounds_to_small [of "lo + p" x] Suc.prems by auto
  have "lo \<le> x" by (simp add: lo_def)
  with Suc.prems have lo: "round_binary64 (int lo) = int x \<Longrightarrow> lo = x"
    using rounds_to_small [of lo x] by auto
  have "shortest_decimal (Suc z) x =
          (if round_binary64 (int lo) = int x then lo else shortest_decimal z x)"
    using hi by (simp add: Let_def lo_def p_def del: of_nat_add of_nat_mult of_nat_power)
  with lo Suc.IH [OF Suc.prems] show ?case by simp
qed

lemma number_digits_small: "x \<le> 2 ^ 53 \<Longrightarrow> number_digits x = digits10 x"
proof -
  assume a: "x \<le> 2 ^ 53"
  then have "x < 10 ^ 21" by simp
  then have "length (digits10 x) \<le> 21"
    by (intro length_digits10) simp_all
  with a show ?thesis
    by (simp add: number_digits_def shortest_decimal_small)
qed

lemma js_number_to_string_small:
  "0 \<le> x \<Longrightarrow> x \<le> 2 ^ 53 \<Longrightarrow> js_number_to_string x = digits10 (nat x)"
  by (simp add: js_number_to_string_def number_digits_small nat_le_iff)

lemma js_number_to_string_0: "js_number_to_string 0 = ''0''"
  by (simp add: js_number_to_string_small digits10.simps digit_char_def)

text \<open>
  Above \<open>2 ^ 53\<close> the shortest numeral can differ from the integer: the number
  \<open>18014398509481992\<close> is shown with a last digit 0, since \<open>18014398509481990\<close> rounds
  to it.
\<close>

lemma bit_length_0: "bit_length 0 = 0"
  by (simp add: bit_length.simps)

lemma bit_length_double: "0 < n \<Longrightarrow> bit_length (2 * n) = bit_length n + 1"
  by (subst bit_length.simps) simp

lemma bit_length_double_1: "bit_length (2 * n + 1) = bit_length n + 1"
  by (subst bit_length.simps) simp

lemma bit_length_1: "bit_length (Suc 0) = 1"
  using bit_length_double_1 [of 0] by (simp add: bit_length_0)

lemma bit_length_Bit0: "bit_length (numeral (Num.Bit0 k)) = bit_length (numeral k) + 1"
  using bit_length_double [of "numeral k"] by (simp add: numeral_Bit0 mult_2)

lemma bit_length_Bit1: "bit_length (numeral (Num.Bit1 k)) = bit_length (numeral k) + 1"
  using bit_length_double_1 [of "numeral k"] by (simp add: numeral_Bit1 mult_2)

lemma shortest_decimal_drops_digit:
  "shortest_decimal (Suc 0) 18014398509481992 = 18014398509481990"
  by (simp add: Let_def round_binary64_def bit_length_0 bit_length_1 bit_length_Bit0 bit_length_Bit1)

subsection \<open>The tree and the click\<close>

lemma buttons_App:
  "by_tag ''button'' (App s) =
     [Elem ''button''
       [(''className'', Str ''px-4 py-2 bg-blue-500 text-white rounded hover:bg-blue-600''),
        (''onClick'', Listener onClick)]
       [Text ''count is '', Number (count s)]]"
  by (simp add: App_def)

lemma click_button_eq: "click_button s = Inr (onClick s)"
  by (simp add: click_button_def click_in_def buttons_App)

lemma count_onClick: "count (onClick s) = js_add (count s) 1"
  by (simp add: onClick_def setCount_def)

lemma onClick_eq: "onClick s = \<lparr>count = js_add (count s) 1\<rparr>"
  by (simp add: onClick_def setCount_def)

lemma check_node_App: "check_node (App s) = None"
  by (simp add: App_def void_elements_def)

subsection \<open>Sequences of clicks\<close>

lemma click_button_below:
  "- (2 ^ 53) \<le> count s \<Longrightarrow> count s < 2 ^ 53 \<Longrightarrow> click_button s = Inr \<lparr>count = count s + 1\<rparr>"
  by (simp add: click_button_eq onClick_eq js_add_1_exact)

lemma click_button_stuck: "count s = 2 ^ 53 \<Longrightarrow> click_button s = Inr \<lparr>count = 2 ^ 53\<rparr>"
  using js_add_1_stuck by (simp add: click_button_eq onClick_eq)

lemma clicks_from:
  "0 \<le> count s \<Longrightarrow> count s \<le> 2 ^ 53 \<Longrightarrow>
   clicks k s = Inr \<lparr>count = min (count s + int k) (2 ^ 53)\<rparr>"
proof (induction k arbitrary: s)
  case 0
  then show ?case by simp
next
  case (Suc k)
  show ?case
  proof (cases "count s < 2 ^ 53")
    case True
    with Suc.prems have step: "click_button s = Inr \<lparr>count = count s + 1\<rparr>"
      by (simp add: click_button_below)
    have "clicks k \<lparr>count = count s + 1\<rparr> =
            Inr \<lparr>count = min (count \<lparr>count = count s + 1\<rparr> + int k) (2 ^ 53)\<rparr>"
      using Suc.prems True by (intro Suc.IH) simp_all
    with step show ?thesis by (simp add: add.assoc)
  next
    case False
    with Suc.prems have eq: "count s = 2 ^ 53" by simp
    then have step: "click_button s = Inr \<lparr>count = 2 ^ 53\<rparr>"
      by (rule click_button_stuck)
    have "clicks k \<lparr>count = 2 ^ 53\<rparr> =
            Inr \<lparr>count = min (count \<lparr>count = 2 ^ 53\<rparr> + int k) (2 ^ 53)\<rparr>"
      by (intro Suc.IH) simp_all
    with step eq show ?thesis by simp
  qed
qed

lemma clicks_count: "clicks k App_init = Inr \<lparr>count = min (int k) (2 ^ 53)\<rparr>"
  using clicks_from [of App_init k] by (simp add: App_init_def useState_def)

lemma reachable_bounds: "reachable s \<Longrightarrow> 0 \<le> count s \<and> count s \<le> 2 ^ 53"
proof (induction rule: reachable.induct)
  case reachable_init
  show ?case by (simp add: App_init_def useState_def)
next
  case (reachable_click s s')
  then show ?case
    by (cases "count s < 2 ^ 53") (auto simp: click_button_below click_button_stuck)
qed

lemma clicks_snoc:
  "clicks (Suc k) s = (case clicks k s of Inl e \<Rightarrow> Inl e | Inr s' \<Rightarrow> click_button s')"
proof (induction k arbitrary: s)
  case 0
  show ?case by (simp split: sum.splits)
next
  case (Suc k)
  show ?case
  proof (cases "click_button s")
    case (Inl e)
    then show ?thesis by simp
  next
    case (Inr s1)
    have "clicks (Suc (Suc k)) s = clicks (Suc k) s1"
      using Inr by simp
    also have "\<dots> = (case clicks k s1 of Inl e \<Rightarrow> Inl e | Inr s' \<Rightarrow> click_button s')"
      by (rule Suc.IH)
    also have "\<dots> = (case clicks (Suc k) s of Inl e \<Rightarrow> Inl e | Inr s' \<Rightarrow> click_button s')"
      using Inr by simp
    finally show ?thesis .
  qed
qed

lemma reachable_iff_clicks: "reachable s \<longleftrightarrow> (\<exists>k. clicks k App_init = Inr s)"
proof
  assume "reachable s"
  then show "\<exists>k. clicks k App_init = Inr s"
  proof (induction rule: reachable.induct)
    case reachable_init
    have "clicks 0 App_init = Inr App_init" by simp
    then show ?case by blast
  next
    case (reachable_click s s')
    then obtain k where "clicks k App_init = Inr s" by blast
    with reachable_click.hyps(2) have "clicks (Suc k) App_init = Inr s'"
      by (simp add: clicks_snoc del: clicks.simps)
    then show ?case by blast
  qed
next
  assume "\<exists>k. clicks k App_init = Inr s"
  then obtain k where "clicks k App_init = Inr s" by blast
  then show "reachable s"
  proof (induction k arbitrary: s)
    case 0
    then show ?case by (simp add: reachable_init)
  next
    case (Suc k)
    then obtain s1 where a: "clicks k App_init = Inr s1" and b: "click_button s1 = Inr s"
      by (auto simp: clicks_snoc simp del: clicks.simps split: sum.splits)
    from Suc.IH [OF a] b show ?case by (rule reachable_click)
  qed
qed

lemma clicks_returns: "\<exists>s'. clicks k s = Inr s'"
  by (induction k arbitrary: s) (simp_all add: click_button_eq)

lemma reachable_count: "k \<le> 2 ^ 53 \<Longrightarrow> reachable \<lparr>count = int k\<rparr>"
proof -
  assume "k \<le> 2 ^ 53"
  then have "min (int k) (2 ^ 53) = int k" by simp
  then have "clicks k App_init = Inr \<lparr>count = int k\<rparr>"
    using clicks_count [of k] by simp
  then show ?thesis
    unfolding reachable_iff_clicks by blast
qed

lemma state_eqI: "count s1 = count s2 \<Longrightarrow> s1 = (s2 :: app_state)"
  by (cases s1, cases s2) simp

lemma anchors_App:
  "by_tag ''a'' (App s) =
     [Elem ''a'' [(''href'', Str ''https://vite.dev''), (''target'', Str ''_blank'')]
       [Elem ''img'' [(''src'', Import ''/vite.svg''), (''className'', Str ''logo''),
                      (''alt'', Str ''Vite logo'')] []],
      Elem ''a'' [(''href'', Str ''https://react.dev''), (''target'', Str ''_blank'')]
       [Elem ''img'' [(''src'', Import ''@/assets/react.svg''), (''className'', Str ''logo react''),
                      (''alt'', Str ''React logo'')] []]]"
  by (simp add: App_def)

lemma headings_App:
  "by_tag ''h1'' (App s) = [Elem ''h1'' [(''className'', Str ''text-3xl font-bold'')] [Text ''Vite + React'']]"
  by (simp add: App_def)

lemma paragraphs_App:
  "by_tag ''p'' (App s) =
     [Elem ''p'' []
       [Text ''Edit '', Elem ''code'' [] [Text ''src/App.tsx''], Text '' and save to test HMR''],
      Elem ''p'' [(''className'', Str ''read-the-docs text-gray-500'')]
       [Text ''Click on the Vite and React logos to learn more'']]"
  by (simp add: App_def)

lemma component_tags_App: "component_tags (App s) = []"
  by (simp add: App_def is_component_tag_def)

lemma label_App:
  "map textContent (by_tag ''button'' (App s)) = [''count is '' @ js_number_to_string (count s)]"
  by (simp add: buttons_App)

lemma strip_click: "click_in (strip_styling (App s)) s = click_button s"
  by (simp add: click_button_def click_in_def App_def)

lemma render_eq: "render s = Inr (App s)"
  by (simp add: render_def check_node_App)

lemma blank_numbers_App: "blank_numbers (App s) = blank_numbers (App s')"
  by (simp add: App_def)

lemma label_42: "map textContent (by_tag ''button'' (App \<lparr>count = 42\<rparr>)) = [''count is 42'']"
  by (simp add: buttons_App js_number_to_string_small digits10.simps digit_char_def)

lemma label_2_53:
  "map textContent (by_tag ''button'' (App \<lparr>count = 2 ^ 53\<rparr>)) = [''count is 9007199254740992'']"
  by (simp add: buttons_App js_number_to_string_small digits10.simps digit_char_def)

lemma reachable_2_53: "reachable \<lparr>count = 2 ^ 53\<rparr>"
proof -
  have "clicks (2 ^ 53) App_init = Inr \<lparr>count = 2 ^ 53\<rparr>"
    using clicks_count [of "2 ^ 53"] by simp
  then show ?thesis
    unfolding reachable_iff_clicks by blast
qed

subsection \<open>The JSX in an environment\<close>

lemma eval_jsx_App: "eval_jsx env s App_jsx = [App s]"
  by (simp add: App_jsx_def App_def eval_props_def)

text \<open>JSX without an expression that reads the environment evaluates the same in all.\<close>

lemma eval_expr_independent:
  "\<not> reads_environment e \<Longrightarrow> eval_expr env1 s e = eval_expr env2 s e"
  by (cases e) simp_all

lemma eval_props_independent:
  "\<not> list_ex (\<lambda>kv. reads_environment (snd kv)) props \<Longrightarrow>
   eval_props env1 s props = eval_props env2 s props"
proof -
  assume "\<not> list_ex (\<lambda>kv. reads_environment (snd kv)) props"
  then have "\<forall>kv \<in> set props. eval_expr env1 s (snd kv) = eval_expr env2 s (snd kv)"
    by (auto simp: list_ex_iff intro: eval_expr_independent)
  then have "map (\<lambda>(name, e). case prop_of_value (eval_expr env1 s e) of
                                None \<Rightarrow> [] | Some v \<Rightarrow> [(name, v)]) props =
             map (\<lambda>(name, e). case prop_of_value (eval_expr env2 s e) of
                                None \<Rightarrow> [] | Some v \<Rightarrow> [(name, v)]) props"
    by (intro map_cong) auto
  then show ?thesis
    unfolding eval_props_def by (rule arg_cong)
qed

lemma eval_jsx_independent:
  "\<not> jsx_reads_environment j \<Longrightarrow> eval_jsx env1 s j = eval_jsx env2 s j"
proof (induction j)
  case (JsxElement tag props children)
  then have "\<not> list_ex (\<lambda>kv. reads_environment (snd kv)) props"
    and "\<forall>c \<in> set children. \<not> jsx_reads_environment c"
    by (simp_all add: list_ex_iff)
  with JsxElement.IH have "map (eval_jsx env1 s) children = map (eval_jsx env2 s) children"
    by (intro map_cong) auto
  then have "concat (map (eval_jsx env1 s) children) = concat (map (eval_jsx env2 s) children)"
    by (rule arg_cong)
  moreover have "eval_props env1 s props = eval_props env2 s props"
    using \<open>\<not> list_ex (\<lambda>kv. reads_environment (snd kv)) props\<close>
    by (rule eval_props_independent)
  ultimately show ?case by simp
next
  case (JsxText t)
  show ?case by simp
next
  case (JsxExpression e)
  then show ?case by (simp add: eval_expr_independent [of e env1 s env2])
qed

lemma App_jsx_reads_nothing: "\<not> jsx_reads_environment App_jsx"
  by (simp add: App_jsx_def)

text \<open>An expression that reads the environment does depend on it.\<close>

lemma eval_jsx_reads_storage:
  "eval_jsx \<lparr>network = Map.empty, storage = [''count'' \<mapsto> ''9''], argv = []\<rparr> s
     (JsxElement ''p'' [] [JsxExpression (StorageItem ''count'')]) = [Elem ''p'' [] [Text ''9'']] \<and>
   eval_jsx \<lparr>network = Map.empty, storage = Map.empty, argv = []\<rparr> s
     (JsxElement ''p'' [] [JsxExpression (StorageItem ''count'')]) = [Elem ''p'' [] []]"
  by (simp add: eval_props_def)

subsection \<open>The template\<close>

lemma buttons_Template:
  "concat (map (by_tag ''button'') (Template_App s)) =
     [Elem ''button'' [(''onClick'', Listener Template_onClick)]
       [Text ''count is '', Number (count s)]]"
  by (simp add: Template_App_def)

lemma Template_click_eq: "Template_click s = Inr (onClick s)"
  by (simp add: Template_click_def buttons_Template Template_onClick_def onClick_def)

lemma Template_clicks_eq: "Template_clicks k s = clicks k s"
  by (induction k arbitrary: s) (simp_all add: Template_click_eq click_button_eq)

lemma strip_styling_App:
  "strip_styling (App s) = Elem ''div'' [] (map strip_styling (map with_alias (Template_App s)))"
  by (simp add: App_def Template_App_def Template_onClick_def onClick_def)

section \<open>The claims\<close>

subsection \<open>C1: a click increments the count\<close>

text \<open>
  As stated, for every counter value, C1 fails at the count \<open>2 ^ 53 = 9007199254740992\<close>,
  which \<open>2 ^ 53\<close> clicks reach: \<open>2 ^ 53 + 1\<close> is not a binary64 number, the sum
  \<open>count + 1\<close> rounds back to \<open>2 ^ 53\<close>, and the click leaves the count where it was.
\<close>

theorem click_at_2_53_counterexample:
  "reachable \<lparr>count = 2 ^ 53\<rparr> \<and>
   click_button \<lparr>count = 2 ^ 53\<rparr> = Inr \<lparr>count = 2 ^ 53\<rparr> \<and>
   click_button \<lparr>count = 2 ^ 53\<rparr> \<noteq> Inr \<lparr>count = 2 ^ 53 + 1\<rparr>"
  using click_button_stuck [of "\<lparr>count = 2 ^ 53\<rparr>"] reachable_2_53 by simp

text \<open>
  C1, amended: for every counter value \<open>n\<close> from \<open>- (2 ^ 53)\<close> up to but excluding
  \<open>2 ^ 53\<close>, so for every count that fewer than \<open>2 ^ 53\<close> clicks reach, running the click
  listener of the button that \<open>App\<close> rendered succeeds and takes the count from \<open>n\<close> to
  \<open>n + 1\<close>.
\<close>

theorem click_increments:
  assumes "- (2 ^ 53) \<le> count s" and "count s < 2 ^ 53"
  shows "click_button s = Inr (s\<lparr>count := count s + 1\<rparr>)"
  using assms by (simp add: click_button_eq onClick_def setCount_def js_add_1_exact)

theorem click_increments_witness:
  "- (2 ^ 53) \<le> count \<lparr>count = 41\<rparr> \<and> count \<lparr>count = 41\<rparr> < 2 ^ 53 \<and>
   click_button \<lparr>count = 41\<rparr> = Inr \<lparr>count = 42\<rparr>"
  using click_increments [of "\<lparr>count = 41\<rparr>"] by simp

subsection \<open>C2: a click changes nothing but the count\<close>

text \<open>
  C2: when a click takes the state \<open>s\<close> to \<open>s'\<close>, only the count of the state has changed,
  and the rest of what \<open>App\<close> renders is the same before and after, for every starting
  count: the two logo links, the heading \<open>Vite + React\<close>, the two paragraphs, and in
  fact the whole tree apart from the number in the button.
\<close>

theorem click_changes_only_count:
  assumes "click_button s = Inr s'"
  shows "s' = s\<lparr>count := count s'\<rparr> \<and>
         by_tag ''a'' (App s') = by_tag ''a'' (App s) \<and> length (by_tag ''a'' (App s)) = 2 \<and>
         by_tag ''h1'' (App s') = by_tag ''h1'' (App s) \<and>
         map textContent (by_tag ''h1'' (App s)) = [''Vite + React''] \<and>
         by_tag ''p'' (App s') = by_tag ''p'' (App s) \<and> length (by_tag ''p'' (App s)) = 2 \<and>
         blank_numbers (App s') = blank_numbers (App s)"
  using blank_numbers_App [of s' s]
  by (simp add: anchors_App headings_App paragraphs_App)

theorem click_changes_only_count_witness:
  "click_button \<lparr>count = 7\<rparr> = Inr \<lparr>count = 8\<rparr> \<and>
   by_tag ''a'' (App \<lparr>count = 8\<rparr>) = by_tag ''a'' (App \<lparr>count = 7\<rparr>) \<and>
   by_tag ''h1'' (App \<lparr>count = 8\<rparr>) = by_tag ''h1'' (App \<lparr>count = 7\<rparr>) \<and>
   by_tag ''p'' (App \<lparr>count = 8\<rparr>) = by_tag ''p'' (App \<lparr>count = 7\<rparr>) \<and>
   blank_numbers (App \<lparr>count = 8\<rparr>) = blank_numbers (App \<lparr>count = 7\<rparr>)"
proof -
  have step: "click_button \<lparr>count = 7\<rparr> = Inr \<lparr>count = 8\<rparr>"
    by (simp add: click_button_below)
  from click_changes_only_count [OF step] step show ?thesis by simp
qed

subsection \<open>C3: no error paths\<close>

text \<open>
  C3: for every count, rendering \<open>App\<close> and running the click listener return a result
  and never an error: the render gives the tree, one click gives the next state, and so
  does every sequence of clicks.
\<close>

theorem App_never_throws:
  "render s = Inr (App s) \<and> click_button s = Inr (onClick s) \<and> (\<exists>s'. clicks k s = Inr s')"
  by (simp add: render_eq click_button_eq clicks_returns)

subsection \<open>C4: the output is a function of the count alone\<close>

text \<open>
  C4: two renders with the same count give the same output, whatever the network, the
  persistent storage and the command line hold at either render: the JSX of \<open>App\<close> has
  no expression that reads them, and evaluating it in any environment gives the one
  tree \<open>App s\<close>, checked.
\<close>

theorem render_depends_on_count_only:
  assumes "count s1 = count s2"
  shows "\<not> jsx_reads_environment App_jsx \<and>
         render_in env1 s1 = render_in env2 s2 \<and> render_in env1 s1 = [render s1]"
proof -
  from assms have "s1 = s2" by (rule state_eqI)
  moreover have "eval_jsx env1 s2 App_jsx = eval_jsx env2 s2 App_jsx"
    using App_jsx_reads_nothing by (rule eval_jsx_independent)
  ultimately have "render_in env1 s1 = render_in env2 s2"
    by (simp add: render_in_def)
  moreover have "render_in env1 s1 = [render s1]"
    by (simp add: render_in_def eval_jsx_App render_def)
  ultimately show ?thesis
    using App_jsx_reads_nothing by simp
qed

theorem render_depends_on_count_only_witness:
  "count \<lparr>count = 5\<rparr> = count (onClick \<lparr>count = 4\<rparr>) \<and>
   render_in \<lparr>network = Map.empty, storage = Map.empty, argv = []\<rparr> \<lparr>count = 5\<rparr> =
   render_in \<lparr>network = [''https://vite.dev'' \<mapsto> ''ok''], storage = [''count'' \<mapsto> ''9''],
              argv = [''--count'', ''9'']\<rparr> (onClick \<lparr>count = 4\<rparr>)"
proof -
  have same: "count \<lparr>count = 5\<rparr> = count (onClick \<lparr>count = 4\<rparr>)"
    by (simp add: count_onClick js_add_1_exact)
  from render_depends_on_count_only [OF same] same show ?thesis by blast
qed

subsection \<open>C5: one component, one button, its label\<close>

text \<open>
  C5: \<open>App\<close> is the whole program: the tree it returns names no other component. The
  tree has exactly one button, and for every count value \<open>n\<close>, that is for the count of
  every state that clicks reach, the text of that button is \<open>count is\<close>, a space, and
  the decimal numeral of \<open>n\<close>: a string of digits without a leading zero whose value
  is \<open>n\<close>.
\<close>

theorem one_button_with_label:
  assumes "reachable s"
  shows "component_tags (App s) = [] \<and>
         length (by_tag ''button'' (App s)) = 1 \<and>
         (\<exists>d. map textContent (by_tag ''button'' (App s)) = [''count is '' @ d] \<and>
              d \<noteq> [] \<and> set d \<subseteq> set ''0123456789'' \<and>
              (hd d = CHR ''0'' \<longrightarrow> d = ''0'') \<and>
              int (decimal_value d) = count s)"
proof -
  define d where "d = digits10 (nat (count s))"
  from reachable_bounds [OF assms] have range: "0 \<le> count s" "count s \<le> 2 ^ 53"
    by simp_all
  then have "js_number_to_string (count s) = d"
    unfolding d_def by (rule js_number_to_string_small)
  then have label: "map textContent (by_tag ''button'' (App s)) = [''count is '' @ d]"
    by (simp add: label_App)
  have "hd d = CHR ''0'' \<longrightarrow> d = ''0''"
  proof
    assume "hd d = CHR ''0''"
    then have "\<not> 0 < nat (count s)"
      unfolding d_def using digits10_no_leading_0 by blast
    then have "nat (count s) = 0" by simp
    then show "d = ''0''"
      by (simp add: d_def digits10.simps digit_char_def)
  qed
  moreover have "d \<noteq> []" "set d \<subseteq> set ''0123456789''"
    unfolding d_def by (rule digits10_not_Nil, rule digits10_digits)
  moreover have "int (decimal_value d) = count s"
    using range by (simp add: d_def decimal_value_digits10)
  ultimately show ?thesis
    using label by (simp add: component_tags_App buttons_App)
qed

theorem one_button_with_label_witness:
  "reachable \<lparr>count = 42\<rparr> \<and>
   component_tags (App \<lparr>count = 42\<rparr>) = [] \<and>
   length (by_tag ''button'' (App \<lparr>count = 42\<rparr>)) = 1 \<and>
   (\<exists>d. map textContent (by_tag ''button'' (App \<lparr>count = 42\<rparr>)) = [''count is '' @ d] \<and>
        d \<noteq> [] \<and> set d \<subseteq> set ''0123456789'' \<and>
        (hd d = CHR ''0'' \<longrightarrow> d = ''0'') \<and>
        int (decimal_value d) = 42)"
proof -
  have r: "reachable \<lparr>count = 42\<rparr>"
    using reachable_count [of 42] by simp
  from one_button_with_label [OF r] r show ?thesis by simp
qed

subsection \<open>C6: the counter of the starter template\<close>

text \<open>
  As stated, C6 fails on the trees: with the styling props erased from both, and the
  import alias written into the template, the template still returns four nodes where
  \<open>App\<close> returns one, its \<open>div\<close> that wraps them. And as for C1, the common state update
  is not an increment at the count \<open>2 ^ 53\<close>.
\<close>

theorem template_tree_counterexample:
  "map strip_styling (map with_alias (Template_App App_init)) \<noteq> [strip_styling (App App_init)] \<and>
   length (Template_App App_init) = 4 \<and>
   Template_click \<lparr>count = 2 ^ 53\<rparr> \<noteq> Inr \<lparr>count = 2 ^ 53 + 1\<rparr>"
  using js_add_1_stuck
  by (simp add: Template_App_def Template_click_eq onClick_eq)

text \<open>
  C6, amended: \<open>App\<close> behaves as the starter template's component does: the same initial
  state with count 0; in every state a click on the button gives the same result in
  both, and so does every sequence of clicks; that result is the count incremented by
  one for every count from \<open>- (2 ^ 53)\<close> up to but excluding \<open>2 ^ 53\<close>. The tree of \<open>App\<close>
  differs from the template's in the \<open>className\<close> props, in the root, a \<open>div\<close> around
  the four nodes of the template's fragment, and in the alias of one import; erasing
  the styling props of \<open>App\<close> does not change what a click on its button does.
\<close>

theorem App_behaves_as_template:
  "App_init = Template_init \<and>
   click_button s = Template_click s \<and>
   clicks k s = Template_clicks k s \<and>
   (- (2 ^ 53) \<le> count s \<and> count s < 2 ^ 53 \<longrightarrow>
      Template_click s = Inr (s\<lparr>count := count s + 1\<rparr>)) \<and>
   strip_styling (App s) = Elem ''div'' [] (map strip_styling (map with_alias (Template_App s))) \<and>
   click_in (strip_styling (App s)) s = click_button s"
proof -
  have "App_init = Template_init"
    by (simp add: App_init_def Template_init_def)
  moreover have "click_button s = Template_click s"
    by (simp add: click_button_eq Template_click_eq)
  moreover have "Template_click s = Inr (s\<lparr>count := count s + 1\<rparr>)"
    if "- (2 ^ 53) \<le> count s" and "count s < 2 ^ 53"
    using that by (simp add: Template_click_eq onClick_def setCount_def js_add_1_exact)
  moreover have "clicks k s = Template_clicks k s"
    by (simp add: Template_clicks_eq)
  moreover note strip_styling_App [of s] strip_click [of s]
  ultimately show ?thesis by blast
qed

theorem App_behaves_as_template_witness:
  "- (2 ^ 53) \<le> count \<lparr>count = 41\<rparr> \<and> count \<lparr>count = 41\<rparr> < 2 ^ 53 \<and>
   Template_click \<lparr>count = 41\<rparr> = Inr \<lparr>count = 42\<rparr> \<and>
   click_button \<lparr>count = 41\<rparr> = Template_click \<lparr>count = 41\<rparr> \<and>
   clicks 2 \<lparr>count = 41\<rparr> = Template_clicks 2 \<lparr>count = 41\<rparr>"
  using App_behaves_as_template [of "\<lparr>count = 41\<rparr>" 2] by simp

subsection \<open>C8: the first render\<close>

text \<open>
  C8: the counter starts at 0: at the first render, before any click, the count is 0 and
  the label of the button is \<open>count is 0\<close>.
\<close>

theorem initial_count_is_0:
  "count App_init = 0 \<and> clicks 0 App_init = Inr App_init \<and>
   render App_init = Inr (App App_init) \<and>
   map textContent (by_tag ''button'' (App App_init)) = [''count is 0'']"
  by (simp add: render_eq label_App js_number_to_string_0 App_init_def useState_def)

subsection \<open>C9: the count after k clicks\<close>

text \<open>
  As stated, for every number of clicks, C9 fails at \<open>2 ^ 53 + 1\<close> clicks: the count is
  then \<open>2 ^ 53\<close>, not \<open>2 ^ 53 + 1\<close>.
\<close>

theorem clicks_beyond_2_53_counterexample:
  "clicks (2 ^ 53 + 1) App_init = Inr \<lparr>count = 2 ^ 53\<rparr> \<and>
   clicks (2 ^ 53 + 1) App_init \<noteq> Inr \<lparr>count = 2 ^ 53 + 1\<rparr>"
  using clicks_count [of "2 ^ 53 + 1"] by simp

text \<open>
  C9, amended: after \<open>k\<close> clicks from the initial state the count is the smaller of \<open>k\<close>
  and \<open>2 ^ 53\<close>: it equals \<open>k\<close> for every \<open>k\<close> up to \<open>2 ^ 53\<close>. In every state that clicks
  reach, the count is not negative and a further click does not decrease it.
\<close>

theorem count_after_clicks:
  "clicks k App_init = Inr \<lparr>count = min (int k) (2 ^ 53)\<rparr> \<and>
   (reachable s \<longrightarrow> 0 \<le> count s \<and> (\<exists>s'. click_button s = Inr s' \<and> count s \<le> count s'))"
proof -
  have "0 \<le> count s \<and> (\<exists>s'. click_button s = Inr s' \<and> count s \<le> count s')" if "reachable s"
  proof (cases "count s < 2 ^ 53")
    case True
    with reachable_bounds [OF that] show ?thesis
      by (simp add: click_button_below)
  next
    case False
    with reachable_bounds [OF that] have "count s = 2 ^ 53" by simp
    with click_button_stuck [OF this] show ?thesis by simp
  qed
  then show ?thesis
    by (simp add: clicks_count)
qed

theorem count_after_clicks_witness:
  "clicks 3 App_init = Inr \<lparr>count = 3\<rparr> \<and> reachable \<lparr>count = 2 ^ 53\<rparr> \<and>
   0 \<le> count \<lparr>count = 2 ^ 53\<rparr> \<and>
   (\<exists>s'. click_button \<lparr>count = 2 ^ 53\<rparr> = Inr s' \<and> count \<lparr>count = 2 ^ 53\<rparr> \<le> count s')"
  using count_after_clicks [of 3 "\<lparr>count = 2 ^ 53\<rparr>"] reachable_2_53 by simp

end
